theory Spec2Isabelle
  imports Main
begin

section \<open>The httpx OAuth 1 client of authlib\<close>

text \<open>
  The development follows \<^verbatim>\<open>authlib/integrations/httpx_client/oauth1_client.py\<close>:
  the request signer \<^verbatim>\<open>OAuth1Auth.auth_flow\<close>, the constructors of the two clients
  and the access-token leg \<^verbatim>\<open>fetch_access_token\<close>. Mutation of the client is explicit
  state passing, an exception is the \<open>Inl\<close> of a sum, and what the module calls but does
  not define (the httpx transport, the signer's \<^verbatim>\<open>prepare\<close>, the token parser and the
  token property of the base client, the helpers of \<^verbatim>\<open>.utils\<close>) is a parameter of the
  function that calls it.
\<close>

subsection \<open>Python values\<close>

text \<open>
  Keyword arguments are a dictionary from names to Python objects. \<open>PObj\<close> is an opaque
  object known by a name (a WSGI application, a timeout, ...), \<open>WSGITransport a\<close> is
  the object built by \<^verbatim>\<open>httpx.WSGITransport(app=a)\<close>.
\<close>

datatype pyval = PNone | PBool bool | PStr string | PObj string | WSGITransport pyval

type_synonym kwargs = "string \<rightharpoonup> pyval"

text \<open>Truth value of an optional string: \<^verbatim>\<open>None\<close> and \<^verbatim>\<open>""\<close> are false.\<close>

fun truthy :: "string option \<Rightarrow> bool" where
  "truthy None = False"
| "truthy (Some s) = (s \<noteq> [])"

subsection \<open>Errors\<close>

text \<open>
  \<open>OAuthError t d\<close> is \<^verbatim>\<open>OAuthError(t, d)\<close> as the module raises it through
  \<^verbatim>\<open>handle_error\<close>. An exception that a collaborator raises passes through the module
  unchanged; it is \<open>Propagated x\<close>, with \<open>x\<close> the exception as the collaborator made it,
  and so is kept apart from the errors that the module raises itself.
\<close>

type_synonym exn = string

datatype error =
    OAuthError string string
  | Propagated exn

definition handle_error :: "string \<Rightarrow> string \<Rightarrow> error + 'a" where
  "handle_error error_type error_description = Inl (OAuthError error_type error_description)"

subsection \<open>Client state and collaborators\<close>

type_synonym token = "(string \<times> string) list"

text \<open>
  The part of the client that \<^verbatim>\<open>fetch_access_token\<close> reads and writes:
  \<^verbatim>\<open>self.auth.verifier\<close>, the token credentials that \<^verbatim>\<open>self.token\<close> gives, and the trace
  of the calls of \<^verbatim>\<open>self.post\<close> (URL and keyword arguments), oldest first.
\<close>

record client =
  auth_verifier :: "string option"
  token :: "token option"
  posted :: "(string \<times> kwargs) list"

text \<open>
  A response as the client uses it: \<^verbatim>\<open>resp.status_code\<close> and the bytes that
  \<^verbatim>\<open>resp.aread()\<close> gives.
\<close>

record response =
  status_code :: nat
  aread :: string

text \<open>
  The collaborators, none of them defined in the module:
  \<^item> \<open>post\<close> is \<^verbatim>\<open>self.post\<close> of httpx; it signs with the client's current credentials,
    hence reads the client, and either raises or answers;
  \<^item> \<open>to_unicode\<close> is \<^verbatim>\<open>authlib.common.encoding.to_unicode\<close>;
  \<^item> \<open>parse_response_token\<close> is the method of the base client in
    \<^verbatim>\<open>authlib.oauth1.client\<close>: from the status code and the text it gives the token
    dictionary or raises;
  \<^item> \<open>set_token\<close> is the assignment \<^verbatim>\<open>self.token = token\<close>. \<^verbatim>\<open>token\<close> is a property of
    the base client, so the assignment runs its setter, which decides what the client
    keeps of the dictionary and may raise.
\<close>

record env =
  post :: "client \<Rightarrow> string \<Rightarrow> kwargs \<Rightarrow> exn + response"
  to_unicode :: "string \<Rightarrow> string"
  parse_response_token :: "nat \<Rightarrow> string \<Rightarrow> exn + token"
  set_token :: "client \<Rightarrow> token \<Rightarrow> exn + client"

subsection \<open>The access-token leg\<close>

text \<open>
  \<^verbatim>\<open>_fetch_token\<close>: post, read the body, parse it, assign the token, return it. An
  exception leaves the client as it is at that point.
\<close>

definition fetch_token ::
  "env \<Rightarrow> client \<Rightarrow> string \<Rightarrow> kwargs \<Rightarrow> client \<times> (error + token)" where
  "fetch_token e c url kw =
     (let c1 = c\<lparr>posted := posted c @ [(url, kw)]\<rparr> in
      case post e c url kw of
        Inl x \<Rightarrow> (c1, Inl (Propagated x))
      | Inr resp \<Rightarrow>
          (let text = aread resp in
           case parse_response_token e (status_code resp) (to_unicode e text) of
             Inl x \<Rightarrow> (c1, Inl (Propagated x))
           | Inr tok \<Rightarrow>
               (case set_token e c1 tok of
                  Inl x \<Rightarrow> (c1, Inl (Propagated x))
                | Inr c2 \<Rightarrow> (c2, Inr tok))))"

definition fetch_access_token ::
  "env \<Rightarrow> client \<Rightarrow> string \<Rightarrow> string option \<Rightarrow> kwargs \<Rightarrow> client \<times> (error + token)" where
  \<open>fetch_access_token e c url verifier kw =
     (let c1 = (if truthy verifier then c\<lparr>auth_verifier := verifier\<rparr> else c) in
      if \<not> truthy (auth_verifier c1)
      then (c1, handle_error ''missing_verifier'' ''Missing "verifier" value'')
      else
        (case fetch_token e c1 url kw of
           (c2, Inl err) \<Rightarrow> (c2, Inl err)
         | (c2, Inr tok) \<Rightarrow> (c2\<lparr>auth_verifier := None\<rparr>, Inr tok)))\<close>

subsection \<open>Requests and headers\<close>

text \<open>
  A byte string is a \<open>string\<close> (a \<open>char\<close> is eight bits), so \<open>length\<close> is its length in
  bytes. Headers are an ordered list of pairs whose keys compare without regard to
  ASCII case, as those of \<^verbatim>\<open>httpx.Headers\<close> do.
\<close>

type_synonym headers = "(string \<times> string) list"

record request =
  request_method :: string
  request_url :: string
  request_headers :: headers
  request_content :: string

text \<open>Lower case of an ASCII letter; any other byte is left as it is.\<close>

definition lower_char :: "char \<Rightarrow> char" where
  "lower_char c =
     (case map_of (zip ''ABCDEFGHIJKLMNOPQRSTUVWXYZ'' ''abcdefghijklmnopqrstuvwxyz'') c of
        None \<Rightarrow> c
      | Some l \<Rightarrow> l)"

definition lower :: "string \<Rightarrow> string" where
  "lower s = map lower_char s"

text \<open>\<^verbatim>\<open>headers[k]\<close>: the value of the first entry whose key is \<open>k\<close>, whatever the case.\<close>

fun get_header :: "string \<Rightarrow> headers \<Rightarrow> string option" where
  "get_header k [] = None"
| "get_header k ((k', v) # hs) = (if lower k' = lower k then Some v else get_header k hs)"

text \<open>
  \<^verbatim>\<open>headers[k] = v\<close>: the first entry of that key is replaced where it stands and any
  later one is removed; without such an entry the pair is appended.
\<close>

fun set_header :: "string \<Rightarrow> string \<Rightarrow> headers \<Rightarrow> headers" where
  "set_header k v [] = [(k, v)]"
| "set_header k v ((k', v') # hs) =
     (if lower k' = lower k
      then (k, v) # filter (\<lambda>(a, b). lower a \<noteq> lower k) hs
      else (k', v') # set_header k v hs)"

text \<open>\<^verbatim>\<open>str(n)\<close> of a natural number: its decimal digits.\<close>

definition digit :: "nat \<Rightarrow> char" where
  "digit d = ''0123456789'' ! d"

fun py_str :: "nat \<Rightarrow> string" where
  "py_str n = (if n < 10 then [digit n] else py_str (n div 10) @ [digit (n mod 10)])"

declare py_str.simps [simp del]

text \<open>
  The value of a decimal numeral, to read a \<^verbatim>\<open>Content-Length\<close> back: \<open>None\<close> when the
  string is empty or has a character that is no digit.
\<close>

definition digit_value :: "char \<Rightarrow> nat option" where
  "digit_value c = map_of (zip ''0123456789'' [0, 1, 2, 3, 4, 5, 6, 7, 8, 9]) c"

fun decimal :: "nat \<Rightarrow> string \<Rightarrow> nat option" where
  "decimal acc [] = Some acc"
| "decimal acc (c # cs) =
     (case digit_value c of None \<Rightarrow> None | Some d \<Rightarrow> decimal (10 * acc + d) cs)"

definition py_int :: "string \<Rightarrow> nat option" where
  "py_int s = (if s = [] then None else decimal 0 s)"

text \<open>
  The body that the signer returns is a Python object: \<^verbatim>\<open>bytes\<close>, or \<^verbatim>\<open>str\<close>, a sequence
  of code points. \<^verbatim>\<open>len\<close> counts the bytes of the one and the code points of the other.
\<close>

datatype body = Bytes string | Text "nat list"

fun len :: "body \<Rightarrow> nat" where
  "len (Bytes b) = length b"
| "len (Text t) = length t"

text \<open>UTF-8: the bytes of one code point, and of a body as it goes on the wire.\<close>

definition utf8 :: "nat \<Rightarrow> string" where
  "utf8 cp =
     (if cp < 128 then [char_of cp]
      else if cp < 2048 then [char_of (192 + cp div 64), char_of (128 + cp mod 64)]
      else if cp < 65536 then
        [char_of (224 + cp div 4096), char_of (128 + cp div 64 mod 64),
         char_of (128 + cp mod 64)]
      else
        [char_of (240 + cp div 262144), char_of (128 + cp div 4096 mod 64),
         char_of (128 + cp div 64 mod 64), char_of (128 + cp mod 64)])"

fun encode :: "body \<Rightarrow> string" where
  "encode (Bytes b) = b"
| "encode (Text t) = concat (map utf8 t)"

text \<open>
  Modelled from the spec: \<^verbatim>\<open>build_request\<close> of \<^verbatim>\<open>.utils\<close> is not part of the module.
  The specification's prepared request is method, URL, headers and body bytes, a new
  representation that leaves the caller's request as it is; the method is the one of
  the initial request, the only part that the signer does not return, and a body that
  is text goes into the request as its bytes.
\<close>

definition build_request :: "string \<Rightarrow> headers \<Rightarrow> body \<Rightarrow> request \<Rightarrow> request" where
  "build_request u hs b initial_request =
     \<lparr>request_method = request_method initial_request, request_url = u,
      request_headers = hs, request_content = encode b\<rparr>"

subsection \<open>The request signer\<close>

text \<open>
  A generator of type \<^verbatim>\<open>Generator[Request, Response, None]\<close> is what it does next: it
  has returned, it has raised, or it is suspended at a \<^verbatim>\<open>yield\<close> with the request
  yielded and its continuation, which takes the response sent in.
\<close>

datatype gen = Return | Raise exn | Yield request "response \<Rightarrow> gen"

text \<open>\<^verbatim>\<open>g.send(resp)\<close> on a suspended generator; a finished one stays finished.\<close>

fun send :: "gen \<Rightarrow> response \<Rightarrow> gen" where
  "send (Yield q k) resp = k resp"
| "send g resp = g"

text \<open>
  The requests that a generator yields when its driver sends it the given responses, one
  after each request.
\<close>

fun yielded :: "gen \<Rightarrow> response list \<Rightarrow> request list" where
  "yielded (Yield q k) [] = [q]"
| "yielded (Yield q k) (resp # resps) = q # yielded (k resp) resps"
| "yielded g resps = []"

text \<open>
  \<^verbatim>\<open>auth_flow\<close>. The signer's \<^verbatim>\<open>prepare\<close> (of \<^verbatim>\<open>authlib.oauth1.ClientAuth\<close>) is the
  parameter \<open>prepare\<close>: from method, URL, headers and content it gives the signed URL,
  headers and body, or raises. The flow has no other parameter: it has no transport to
  call.
\<close>

definition auth_flow ::
  "(string \<Rightarrow> string \<Rightarrow> headers \<Rightarrow> string \<Rightarrow> exn + string \<times> headers \<times> body)
     \<Rightarrow> request \<Rightarrow> gen" where
  "auth_flow prepare req =
     (case prepare (request_method req) (request_url req) (request_headers req)
             (request_content req) of
        Inl x \<Rightarrow> Raise x
      | Inr (u, hs, b) \<Rightarrow>
          (let hs' = set_header ''Content-Length'' (py_str (len b)) hs in
           Yield (build_request u hs' b req) (\<lambda>resp. Return)))"

subsection \<open>The constructors\<close>

text \<open>
  What a constructor does is call the two base constructors; the model records the
  arguments of each call. \<open>httpx_kwargs\<close> are the keyword arguments given to
  \<^verbatim>\<open>httpx.Client.__init__\<close> (\<^verbatim>\<open>httpx.AsyncClient.__init__\<close>), \<open>session_is_self\<close> tells
  whether the session given to \<^verbatim>\<open>_OAuth1Client.__init__\<close> is the client itself or
  \<^verbatim>\<open>None\<close>, \<open>oauth1_args\<close> are the ten named parameters (\<^verbatim>\<open>client_id\<close> to
  \<^verbatim>\<open>force_include_body\<close>), handed over as they come, and \<open>oauth1_kwargs\<close> the
  remaining keyword arguments.
\<close>

record 'a constructed =
  httpx_kwargs :: kwargs
  session_is_self :: bool
  oauth1_args :: 'a
  oauth1_kwargs :: kwargs

text \<open>
  \<^verbatim>\<open>extract_client_kwargs\<close> of \<^verbatim>\<open>.utils\<close> is the parameter \<open>extract\<close>: from the
  caller's keyword arguments it gives the ones meant for httpx and the caller's
  dictionary as it leaves it.
\<close>

definition AsyncOAuth1Client_init ::
  "(kwargs \<Rightarrow> kwargs \<times> kwargs) \<Rightarrow> 'a \<Rightarrow> kwargs \<Rightarrow> 'a constructed" where
  "AsyncOAuth1Client_init extract args kw =
     (let (client_kwargs, kw') = extract kw;
          client_kwargs = client_kwargs(''verify'' \<mapsto> PBool False)
      in \<lparr>httpx_kwargs = client_kwargs, session_is_self = False,
          oauth1_args = args, oauth1_kwargs = kw'\<rparr>)"

text \<open>\<^verbatim>\<open>d.pop(k, None)\<close>: the value removed, \<^verbatim>\<open>None\<close> without the key, and the rest.\<close>

definition pop :: "kwargs \<Rightarrow> string \<Rightarrow> pyval \<times> kwargs" where
  "pop d k = (case d k of None \<Rightarrow> (PNone, d) | Some v \<Rightarrow> (v, d(k := None)))"

definition OAuth1Client_init ::
  "(kwargs \<Rightarrow> kwargs \<times> kwargs) \<Rightarrow> 'a \<Rightarrow> kwargs \<Rightarrow> 'a constructed" where
  "OAuth1Client_init extract args kw =
     (let (client_kwargs, kw') = extract kw;
          client_kwargs = client_kwargs(''verify'' \<mapsto> PBool False);
          (app_value, client_kwargs) = pop client_kwargs ''app'';
          client_kwargs =
            (if app_value \<noteq> PNone
             then client_kwargs(''transport'' \<mapsto> WSGITransport app_value)
             else client_kwargs)
      in \<lparr>httpx_kwargs = client_kwargs, session_is_self = True,
          oauth1_args = args, oauth1_kwargs = kw'\<rparr>)"

section \<open>Properties\<close>

subsection \<open>Helper facts\<close>

lemma fetch_token_error:
  "fetch_token e c url kw = (c', Inl err) \<Longrightarrow> err \<noteq> OAuthError t d"
  by (auto simp: fetch_token_def Let_def split: sum.splits)

lemma fetch_token_Inl_verifier:
  "fetch_token e c url kw = (c', Inl err) \<Longrightarrow> auth_verifier c' = auth_verifier c"
  by (auto simp: fetch_token_def Let_def split: sum.splits)

lemma fetch_token_Inr:
  "fetch_token e c url kw = (c', Inr tok) \<Longrightarrow>
     \<exists>resp. post e c url kw = Inr resp
       \<and> parse_response_token e (status_code resp) (to_unicode e (aread resp)) = Inr tok
       \<and> set_token e (c\<lparr>posted := posted c @ [(url, kw)]\<rparr>) tok = Inr c'"
  by (auto simp: fetch_token_def Let_def split: sum.splits)

lemma filter_set_header:
  "filter (\<lambda>(a, b). lower a = lower k) (set_header k v hs) = [(k, v)]"
  by (induction hs) (auto simp: filter_empty_conv)

lemma get_set_header: "get_header k (set_header k v hs) = Some v"
  by (induction hs) auto

lemma lower_Content_Length: "lower ''Content-Length'' = ''content-length''"
  by (simp add: lower_def lower_char_def)

lemma yielded_once: "yielded (Yield q (\<lambda>resp. Return)) resps = [q]"
  by (cases resps) simp_all

text \<open>\<open>py_str\<close> writes the number that \<open>py_int\<close> reads.\<close>

lemma digit_value_digit: "d < 10 \<Longrightarrow> digit_value (digit d) = Some d"
proof -
  assume "d < 10"
  then have "d \<in> {0, 1, 2, 3, 4, 5, 6, 7, 8, 9}" by auto
  then show ?thesis by (auto simp: digit_value_def digit_def)
qed

lemma decimal_append:
  "decimal acc (xs @ ys) = (case decimal acc xs of None \<Rightarrow> None | Some v \<Rightarrow> decimal v ys)"
  by (induction xs arbitrary: acc) (auto split: option.splits)

lemma py_str_not_Nil: "py_str n \<noteq> []"
  by (subst py_str.simps) simp

lemma decimal_py_str: "decimal 0 (py_str n) = Some n"
proof (induction n rule: py_str.induct)
  case (1 n)
  show ?case
  proof (cases "n < 10")
    case True
    then show ?thesis
      by (subst py_str.simps) (simp add: digit_value_digit)
  next
    case False
    with 1 have "decimal 0 (py_str (n div 10)) = Some (n div 10)" by simp
    with False show ?thesis
      by (subst py_str.simps) (simp add: decimal_append digit_value_digit)
  qed
qed

lemma py_int_py_str: "py_int (py_str n) = Some n"
  by (simp add: py_int_def py_str_not_Nil decimal_py_str)

text \<open>
  What line 28 writes is \<^verbatim>\<open>len\<close> of the signer's body, and that is the number of bytes
  of the request when the body is bytes or text of ASCII characters only.
\<close>

lemma length_encode_ascii:
  "(case b of Bytes s \<Rightarrow> True | Text t \<Rightarrow> \<forall>cp \<in> set t. cp < 128) \<Longrightarrow>
     length (encode b) = len b"
proof (cases b)
  case (Bytes s)
  then show ?thesis by simp
next
  case (Text t)
  assume "case b of Bytes s \<Rightarrow> True | Text t \<Rightarrow> \<forall>cp \<in> set t. cp < 128"
  with Text have "\<forall>cp \<in> set t. cp < 128" by simp
  then have "length (concat (map utf8 t)) = length t"
    by (induction t) (auto simp: utf8_def)
  with Text show ?thesis by simp
qed


lemma auth_flow_content_length_len:
  assumes "auth_flow prepare req = Yield q k"
  shows "\<exists>u hs b. prepare (request_method req) (request_url req) (request_headers req)
                    (request_content req) = Inr (u, hs, b)
           \<and> request_content q = encode b
           \<and> get_header ''Content-Length'' (request_headers q) = Some (py_str (len b))
           \<and> filter (\<lambda>(a, v). lower a = ''content-length'') (request_headers q)
               = [(''Content-Length'', py_str (len b))]"
proof -
  from assms obtain u hs b where
    p: "prepare (request_method req) (request_url req) (request_headers req)
          (request_content req) = Inr (u, hs, b)"
    and q: "q = build_request u (set_header ''Content-Length'' (py_str (len b)) hs) b req"
    by (auto simp: auth_flow_def Let_def split: sum.splits)
  from filter_set_header [of "''Content-Length''" "py_str (len b)" hs]
    lower_Content_Length q p
  show ?thesis by (simp add: build_request_def get_set_header)
qed

text \<open>
  What lines 125 to 127 do with an \<^verbatim>\<open>app\<close> that is among the extracted arguments: it is
  taken out and becomes the transport. The asynchronous constructor changes nothing
  but \<^verbatim>\<open>verify\<close>.
\<close>

lemma OAuth1Client_init_pops_app:
  assumes "fst (extract kw) ''app'' = Some a" and "a \<noteq> PNone"
  shows "httpx_kwargs (OAuth1Client_init extract args kw) ''app'' = None
    \<and> httpx_kwargs (OAuth1Client_init extract args kw) ''transport''
        = Some (WSGITransport a)"
  using assms
  by (auto simp: OAuth1Client_init_def pop_def Let_def split: prod.splits option.splits)

lemma AsyncOAuth1Client_init_kwargs:
  "httpx_kwargs (AsyncOAuth1Client_init extract args kw)
     = (fst (extract kw))(''verify'' \<mapsto> PBool False)"
  by (auto simp: AsyncOAuth1Client_init_def Let_def split: prod.splits)

subsection \<open>The access-token leg\<close>

text \<open>
  C1. When the client holds no verifier and none is passed, \<^verbatim>\<open>fetch_access_token\<close>
  does not return a token: it raises \<^verbatim>\<open>OAuthError\<close> of type \<^verbatim>\<open>missing_verifier\<close>.
\<close>

theorem fetch_access_token_missing_verifier:
  \<open>auth_verifier c = None \<Longrightarrow>
   snd (fetch_access_token e c url None kw)
     = Inl (OAuthError ''missing_verifier'' ''Missing "verifier" value'')\<close>
  by (simp add: fetch_access_token_def handle_error_def)

theorem fetch_access_token_missing_verifier_witness:
  \<open>auth_verifier \<lparr>auth_verifier = None,
        token = Some [(''oauth_token'', ''rt''), (''oauth_token_secret'', ''rts'')], posted = []\<rparr> = None
   \<and> snd (fetch_access_token
       \<lparr>post = (\<lambda>c u kw. Inr \<lparr>status_code = 200, aread = ''oauth_token=at&oauth_token_secret=ats''\<rparr>),
        to_unicode = (\<lambda>s. s),
        parse_response_token = (\<lambda>status text.
          if status < 400 \<and> text = ''oauth_token=at&oauth_token_secret=ats''
          then Inr [(''oauth_token'', ''at''), (''oauth_token_secret'', ''ats'')]
          else Inl ''fetch_token_denied''),
        set_token = (\<lambda>c t. Inr (c\<lparr>token := Some t\<rparr>))\<rparr>
       \<lparr>auth_verifier = None,
        token = Some [(''oauth_token'', ''rt''), (''oauth_token_secret'', ''rts'')], posted = []\<rparr>
       ''https://ex.com/access'' None Map.empty)
     = Inl (OAuthError ''missing_verifier'' ''Missing "verifier" value'')\<close>
  using fetch_access_token_missing_verifier
    [of \<open>\<lparr>auth_verifier = None,
        token = Some [(''oauth_token'', ''rt''), (''oauth_token_secret'', ''rts'')], posted = []\<rparr>\<close>
       \<open>\<lparr>post = (\<lambda>c u kw. Inr \<lparr>status_code = 200, aread = ''oauth_token=at&oauth_token_secret=ats''\<rparr>),
        to_unicode = (\<lambda>s. s),
        parse_response_token = (\<lambda>status text.
          if status < 400 \<and> text = ''oauth_token=at&oauth_token_secret=ats''
          then Inr [(''oauth_token'', ''at''), (''oauth_token_secret'', ''ats'')]
          else Inl ''fetch_token_denied''),
        set_token = (\<lambda>c t. Inr (c\<lparr>token := Some t\<rparr>))\<rparr>\<close>
       \<open>''https://ex.com/access''\<close> Map.empty]
  by simp

text \<open>
  C2. When \<^verbatim>\<open>fetch_access_token\<close> returns, the client holds no verifier any more,
  whether the verifier was passed in or was already stored.
\<close>

theorem fetch_access_token_clears_verifier:
  "fetch_access_token e c url verifier kw = (c', Inr tok) \<Longrightarrow> auth_verifier c' = None"
  by (auto simp: fetch_access_token_def handle_error_def Let_def
        split: prod.splits sum.splits if_splits)

theorem fetch_access_token_clears_verifier_witness:
  "fetch_access_token
       \<lparr>post = (\<lambda>c u kw. Inr \<lparr>status_code = 200, aread = ''oauth_token=at&oauth_token_secret=ats''\<rparr>),
        to_unicode = (\<lambda>s. s),
        parse_response_token = (\<lambda>status text.
          if status < 400 \<and> text = ''oauth_token=at&oauth_token_secret=ats''
          then Inr [(''oauth_token'', ''at''), (''oauth_token_secret'', ''ats'')]
          else Inl ''fetch_token_denied''),
        set_token = (\<lambda>c t. Inr (c\<lparr>token := Some t\<rparr>))\<rparr>
       \<lparr>auth_verifier = None,
        token = Some [(''oauth_token'', ''rt''), (''oauth_token_secret'', ''rts'')], posted = []\<rparr>
       ''https://ex.com/access'' (Some ''v1'') Map.empty
     = (\<lparr>auth_verifier = None,
        token = Some [(''oauth_token'', ''at''), (''oauth_token_secret'', ''ats'')],
        posted = [(''https://ex.com/access'', Map.empty)]\<rparr>,
        Inr [(''oauth_token'', ''at''), (''oauth_token_secret'', ''ats'')])
   \<and> auth_verifier
       (fst (fetch_access_token
       \<lparr>post = (\<lambda>c u kw. Inr \<lparr>status_code = 200, aread = ''oauth_token=at&oauth_token_secret=ats''\<rparr>),
        to_unicode = (\<lambda>s. s),
        parse_response_token = (\<lambda>status text.
          if status < 400 \<and> text = ''oauth_token=at&oauth_token_secret=ats''
          then Inr [(''oauth_token'', ''at''), (''oauth_token_secret'', ''ats'')]
          else Inl ''fetch_token_denied''),
        set_token = (\<lambda>c t. Inr (c\<lparr>token := Some t\<rparr>))\<rparr>
       \<lparr>auth_verifier = None,
        token = Some [(''oauth_token'', ''rt''), (''oauth_token_secret'', ''rts'')], posted = []\<rparr>
       ''https://ex.com/access'' (Some ''v1'') Map.empty)) = None"
  (is "?h \<and> ?c")
proof -
  have h: ?h
    by (simp add: fetch_access_token_def fetch_token_def)
  from fetch_access_token_clears_verifier [OF h] h show ?thesis by simp
qed

text \<open>
  C3, as the module has it. When \<^verbatim>\<open>fetch_access_token\<close> returns a token, the post (made
  with the verifier in place) was answered, the token is what \<^verbatim>\<open>parse_response_token\<close>
  made of the status code and the decoded body of the answer, that same token was
  assigned to \<^verbatim>\<open>self.token\<close> and the assignment did not raise, and the client is what
  the assignment left, with the verifier cleared. Which keys the token must have, and
  what the client keeps of it, is the parser's and the setter's business: the module
  asks for no key and stores nothing itself.
\<close>

theorem fetch_access_token_parses_assigns_returns:
  assumes "fetch_access_token e c url verifier kw = (c', Inr tok)"
  shows "\<exists>resp c2.
           post e (if truthy verifier then c\<lparr>auth_verifier := verifier\<rparr> else c) url kw
             = Inr resp
         \<and> parse_response_token e (status_code resp) (to_unicode e (aread resp)) = Inr tok
         \<and> set_token e
             ((if truthy verifier then c\<lparr>auth_verifier := verifier\<rparr> else c)
                \<lparr>posted := posted c @ [(url, kw)]\<rparr>) tok = Inr c2
         \<and> c' = c2\<lparr>auth_verifier := None\<rparr>"
proof -
  let ?c1 = "if truthy verifier then c\<lparr>auth_verifier := verifier\<rparr> else c"
  from assms obtain c2 where ft: "fetch_token e ?c1 url kw = (c2, Inr tok)"
    and c': "c' = c2\<lparr>auth_verifier := None\<rparr>"
    by (auto simp: fetch_access_token_def handle_error_def Let_def
          split: prod.splits sum.splits if_splits)
  from fetch_token_Inr [OF ft] obtain resp where
    p: "post e ?c1 url kw = Inr resp"
    and q: "parse_response_token e (status_code resp) (to_unicode e (aread resp)) = Inr tok"
    and s: "set_token e (?c1\<lparr>posted := posted ?c1 @ [(url, kw)]\<rparr>) tok = Inr c2"
    by blast
  have "posted ?c1 = posted c" by simp
  with s have "set_token e (?c1\<lparr>posted := posted c @ [(url, kw)]\<rparr>) tok = Inr c2"
    by simp
  with p q c' show ?thesis by blast
qed

theorem fetch_access_token_parses_assigns_returns_witness:
  "fetch_access_token
       \<lparr>post = (\<lambda>c u kw. Inr \<lparr>status_code = 200, aread = ''oauth_token=at&oauth_token_secret=ats''\<rparr>),
        to_unicode = (\<lambda>s. s),
        parse_response_token = (\<lambda>status text.
          if status < 400 \<and> text = ''oauth_token=at&oauth_token_secret=ats''
          then Inr [(''oauth_token'', ''at''), (''oauth_token_secret'', ''ats'')]
          else Inl ''fetch_token_denied''),
        set_token = (\<lambda>c t. Inr (c\<lparr>token := Some t\<rparr>))\<rparr>
       \<lparr>auth_verifier = None,
        token = Some [(''oauth_token'', ''rt''), (''oauth_token_secret'', ''rts'')], posted = []\<rparr>
       ''https://ex.com/access'' (Some ''v1'') Map.empty
     = (\<lparr>auth_verifier = None,
        token = Some [(''oauth_token'', ''at''), (''oauth_token_secret'', ''ats'')],
        posted = [(''https://ex.com/access'', Map.empty)]\<rparr>,
        Inr [(''oauth_token'', ''at''), (''oauth_token_secret'', ''ats'')])
   \<and> parse_response_token
       \<lparr>post = (\<lambda>c u kw. Inr \<lparr>status_code = 200, aread = ''oauth_token=at&oauth_token_secret=ats''\<rparr>),
        to_unicode = (\<lambda>s. s),
        parse_response_token = (\<lambda>status text.
          if status < 400 \<and> text = ''oauth_token=at&oauth_token_secret=ats''
          then Inr [(''oauth_token'', ''at''), (''oauth_token_secret'', ''ats'')]
          else Inl ''fetch_token_denied''),
        set_token = (\<lambda>c t. Inr (c\<lparr>token := Some t\<rparr>))\<rparr> 200 ''oauth_token=at&oauth_token_secret=ats''
     = Inr [(''oauth_token'', ''at''), (''oauth_token_secret'', ''ats'')]
   \<and> token \<lparr>auth_verifier = None,
        token = Some [(''oauth_token'', ''at''), (''oauth_token_secret'', ''ats'')],
        posted = [(''https://ex.com/access'', Map.empty)]\<rparr>
       = Some [(''oauth_token'', ''at''), (''oauth_token_secret'', ''ats'')]"
  (is "?h \<and> ?c")
proof -
  have h: ?h
    by (simp add: fetch_access_token_def fetch_token_def)
  from fetch_access_token_parses_assigns_returns [OF h] h show ?thesis by simp
qed

text \<open>
  C3, as stated, fails: with a parser that takes a body of \<^verbatim>\<open>oauth_token\<close> alone and a
  setter that keeps the secret it has when the token brings none, the call returns a
  token without \<^verbatim>\<open>oauth_token_secret\<close>, and the credentials of the client are not that
  token: the old secret is still there.
\<close>

theorem fetch_access_token_requires_secret_counterexample:
  "fetch_access_token
       \<lparr>post = (\<lambda>c u kw. Inr \<lparr>status_code = 200, aread = ''oauth_token=at''\<rparr>),
        to_unicode = (\<lambda>s. s),
        parse_response_token = (\<lambda>status text.
          if status < 400 \<and> text = ''oauth_token=at''
          then Inr [(''oauth_token'', ''at'')]
          else Inl ''fetch_token_denied''),
        set_token = (\<lambda>c t.
          case map_of t ''oauth_token'' of
            None \<Rightarrow> Inl ''missing_token''
          | Some a \<Rightarrow>
              Inr (c\<lparr>token := Some
                [(''oauth_token'', a),
                 (''oauth_token_secret'',
                  case map_of t ''oauth_token_secret'' of
                    Some s \<Rightarrow> s
                  | None \<Rightarrow>
                      (case token c of
                         None \<Rightarrow> []
                       | Some old \<Rightarrow>
                           (case map_of old ''oauth_token_secret'' of
                              None \<Rightarrow> []
                            | Some s \<Rightarrow> s)))]\<rparr>))\<rparr>
       \<lparr>auth_verifier = None,
        token = Some [(''oauth_token'', ''rt''), (''oauth_token_secret'', ''rts'')], posted = []\<rparr>
       ''https://ex.com/access'' (Some ''v1'') Map.empty
     = (\<lparr>auth_verifier = None,
        token = Some [(''oauth_token'', ''at''), (''oauth_token_secret'', ''rts'')],
        posted = [(''https://ex.com/access'', Map.empty)]\<rparr>,
        Inr [(''oauth_token'', ''at'')])
   \<and> map_of [(''oauth_token'', ''at'')] ''oauth_token_secret'' = None
   \<and> token \<lparr>auth_verifier = None,
        token = Some [(''oauth_token'', ''at''), (''oauth_token_secret'', ''rts'')],
        posted = [(''https://ex.com/access'', Map.empty)]\<rparr>
       \<noteq> Some [(''oauth_token'', ''at'')]"
  by (simp add: fetch_access_token_def fetch_token_def)

text \<open>
  C8. When \<^verbatim>\<open>fetch_access_token\<close> fails with \<^verbatim>\<open>missing_verifier\<close>, the failure is the
  one of the guard before the post: no verifier was passed or stored, and the client is
  as it was before the call: no post was made, and token and verifier are unchanged.
\<close>

theorem missing_verifier_state_unchanged:
  "fetch_access_token e c url verifier kw = (c', Inl (OAuthError ''missing_verifier'' d)) \<Longrightarrow>
     \<not> truthy verifier \<and> \<not> truthy (auth_verifier c) \<and> c' = c
       \<and> posted c' = posted c \<and> token c' = token c \<and> auth_verifier c' = auth_verifier c"
  by (auto simp: fetch_access_token_def handle_error_def Let_def
        split: prod.splits sum.splits if_splits dest: fetch_token_error)

theorem missing_verifier_state_unchanged_witness:
  \<open>fetch_access_token
       \<lparr>post = (\<lambda>c u kw. Inr \<lparr>status_code = 200, aread = ''oauth_token=at&oauth_token_secret=ats''\<rparr>),
        to_unicode = (\<lambda>s. s),
        parse_response_token = (\<lambda>status text.
          if status < 400 \<and> text = ''oauth_token=at&oauth_token_secret=ats''
          then Inr [(''oauth_token'', ''at''), (''oauth_token_secret'', ''ats'')]
          else Inl ''fetch_token_denied''),
        set_token = (\<lambda>c t. Inr (c\<lparr>token := Some t\<rparr>))\<rparr>
       \<lparr>auth_verifier = None,
        token = Some [(''oauth_token'', ''rt''), (''oauth_token_secret'', ''rts'')], posted = []\<rparr>
       ''https://ex.com/access'' None Map.empty
     = (\<lparr>auth_verifier = None,
        token = Some [(''oauth_token'', ''rt''), (''oauth_token_secret'', ''rts'')], posted = []\<rparr>,
        Inl (OAuthError ''missing_verifier'' ''Missing "verifier" value''))
   \<and> posted \<lparr>auth_verifier = None,
        token = Some [(''oauth_token'', ''rt''), (''oauth_token_secret'', ''rts'')], posted = []\<rparr> = []\<close>
  (is "?h \<and> ?c")
proof -
  have h: ?h
    by (simp add: fetch_access_token_def handle_error_def)
  from missing_verifier_state_unchanged [OF h] h show ?thesis by simp
qed

text \<open>
  C9. An empty string passed as the verifier counts as no verifier: the call does what
  the call without the argument does, it fails with \<^verbatim>\<open>missing_verifier\<close> and an
  unchanged client when no non-empty verifier is stored, and the client holds an empty
  verifier afterwards only if it held one before.
\<close>

theorem fetch_access_token_empty_verifier:
  \<open>fetch_access_token e c url (Some []) kw = fetch_access_token e c url None kw
   \<and> (\<not> truthy (auth_verifier c) \<longrightarrow>
        fetch_access_token e c url (Some []) kw
          = (c, Inl (OAuthError ''missing_verifier'' ''Missing "verifier" value'')))
   \<and> (auth_verifier (fst (fetch_access_token e c url (Some []) kw)) = Some [] \<longrightarrow>
        auth_verifier c = Some [])\<close>
  by (auto simp: fetch_access_token_def handle_error_def Let_def
        split: prod.splits sum.splits if_splits dest: fetch_token_Inl_verifier)

theorem fetch_access_token_empty_verifier_witness:
  \<open>\<not> truthy (auth_verifier \<lparr>auth_verifier = None,
        token = Some [(''oauth_token'', ''rt''), (''oauth_token_secret'', ''rts'')], posted = []\<rparr>)
   \<and> fetch_access_token
       \<lparr>post = (\<lambda>c u kw. Inr \<lparr>status_code = 200, aread = ''oauth_token=at&oauth_token_secret=ats''\<rparr>),
        to_unicode = (\<lambda>s. s),
        parse_response_token = (\<lambda>status text.
          if status < 400 \<and> text = ''oauth_token=at&oauth_token_secret=ats''
          then Inr [(''oauth_token'', ''at''), (''oauth_token_secret'', ''ats'')]
          else Inl ''fetch_token_denied''),
        set_token = (\<lambda>c t. Inr (c\<lparr>token := Some t\<rparr>))\<rparr>
       \<lparr>auth_verifier = None,
        token = Some [(''oauth_token'', ''rt''), (''oauth_token_secret'', ''rts'')], posted = []\<rparr>
       ''https://ex.com/access'' (Some []) Map.empty
     = (\<lparr>auth_verifier = None,
        token = Some [(''oauth_token'', ''rt''), (''oauth_token_secret'', ''rts'')], posted = []\<rparr>,
        Inl (OAuthError ''missing_verifier'' ''Missing "verifier" value''))\<close>
  using fetch_access_token_empty_verifier
    [of \<open>\<lparr>post = (\<lambda>c u kw. Inr \<lparr>status_code = 200, aread = ''oauth_token=at&oauth_token_secret=ats''\<rparr>),
        to_unicode = (\<lambda>s. s),
        parse_response_token = (\<lambda>status text.
          if status < 400 \<and> text = ''oauth_token=at&oauth_token_secret=ats''
          then Inr [(''oauth_token'', ''at''), (''oauth_token_secret'', ''ats'')]
          else Inl ''fetch_token_denied''),
        set_token = (\<lambda>c t. Inr (c\<lparr>token := Some t\<rparr>))\<rparr>\<close>
       \<open>\<lparr>auth_verifier = None,
        token = Some [(''oauth_token'', ''rt''), (''oauth_token_secret'', ''rts'')], posted = []\<rparr>\<close>
       \<open>''https://ex.com/access''\<close> Map.empty]
  by (simp add: fetch_access_token_def handle_error_def)

subsection \<open>The constructors\<close>

text \<open>
  C4. The synchronous constructor gives httpx \<^verbatim>\<open>verify=False\<close> whenever the caller
  does not ask for strict verification.
\<close>

theorem OAuth1Client_init_verify_default:
  "kw ''verify'' \<noteq> Some (PBool True) \<Longrightarrow>
     httpx_kwargs (OAuth1Client_init extract args kw) ''verify'' = Some (PBool False)"
  by (auto simp: OAuth1Client_init_def pop_def Let_def split: prod.splits option.splits)

theorem OAuth1Client_init_verify_default_witness:
  "[''timeout'' \<mapsto> PObj ''5.0''] ''verify'' \<noteq> Some (PBool True)
   \<and> httpx_kwargs (OAuth1Client_init (\<lambda>kw. (kw, Map.empty)) () [''timeout'' \<mapsto> PObj ''5.0''])
       ''verify'' = Some (PBool False)"
  (is "?h \<and> ?c")
proof -
  have h: ?h by simp
  from h OAuth1Client_init_verify_default [of "[''timeout'' \<mapsto> PObj ''5.0'']"
         "(\<lambda>kw. (kw, Map.empty))" "()"]
  show ?thesis by simp
qed

text \<open>
  C5. Whatever the keyword arguments, \<^verbatim>\<open>verify=True\<close> among them or not, both
  constructors give httpx \<^verbatim>\<open>verify=False\<close>: the assignment has no condition and comes
  after the caller's value.
\<close>

theorem init_verify_always_False:
  "httpx_kwargs (OAuth1Client_init extract args kw) ''verify'' = Some (PBool False)
   \<and> httpx_kwargs (AsyncOAuth1Client_init extract args kw) ''verify'' = Some (PBool False)"
  by (auto simp: OAuth1Client_init_def AsyncOAuth1Client_init_def pop_def Let_def
        split: prod.splits option.splits)

theorem init_verify_always_False_witness:
  "fst ((\<lambda>kw. (kw, Map.empty)) [''verify'' \<mapsto> PBool True]) ''verify'' = Some (PBool True)
   \<and> httpx_kwargs (OAuth1Client_init (\<lambda>kw. (kw, Map.empty)) () [''verify'' \<mapsto> PBool True])
       ''verify'' = Some (PBool False)
   \<and> httpx_kwargs (AsyncOAuth1Client_init (\<lambda>kw. (kw, Map.empty)) () [''verify'' \<mapsto> PBool True])
       ''verify'' = Some (PBool False)"
  using init_verify_always_False [of "(\<lambda>kw. (kw, Map.empty))" "()" "[''verify'' \<mapsto> PBool True]"]
  by simp

text \<open>
  C10, at the input where it fails. The extractor here keeps the keyword names of
  \<^verbatim>\<open>httpx.Client\<close>, and \<^verbatim>\<open>app\<close> is not one of them. A client made with \<^verbatim>\<open>app=wsgi_app\<close>
  then gives httpx no transport at all: the \<^verbatim>\<open>pop\<close> of line 125 looks for \<^verbatim>\<open>app\<close> among
  the extracted arguments, where it never is, and \<^verbatim>\<open>app\<close> goes on, as it came, to the
  constructor of the base client.
\<close>

theorem OAuth1Client_init_app_not_converted:
  "[''app'' \<mapsto> PObj ''wsgi_app''] ''app'' = Some (PObj ''wsgi_app'')
   \<and> PObj ''wsgi_app'' \<noteq> PNone
   \<and> httpx_kwargs (OAuth1Client_init (\<lambda>kw.
        (kw |` {''headers'', ''cookies'', ''verify'', ''cert'', ''http1'', ''http2'', ''proxy'',
          ''mounts'', ''timeout'', ''follow_redirects'', ''limits'', ''max_redirects'',
          ''event_hooks'', ''base_url'', ''transport'', ''trust_env'', ''default_encoding''},
         kw |` (- {''headers'', ''cookies'', ''verify'', ''cert'', ''http1'', ''http2'', ''proxy'',
          ''mounts'', ''timeout'', ''follow_redirects'', ''limits'', ''max_redirects'',
          ''event_hooks'', ''base_url'', ''transport'', ''trust_env'', ''default_encoding''}))) () [''app'' \<mapsto> PObj ''wsgi_app''])
       ''transport'' = None
   \<and> httpx_kwargs (OAuth1Client_init (\<lambda>kw.
        (kw |` {''headers'', ''cookies'', ''verify'', ''cert'', ''http1'', ''http2'', ''proxy'',
          ''mounts'', ''timeout'', ''follow_redirects'', ''limits'', ''max_redirects'',
          ''event_hooks'', ''base_url'', ''transport'', ''trust_env'', ''default_encoding''},
         kw |` (- {''headers'', ''cookies'', ''verify'', ''cert'', ''http1'', ''http2'', ''proxy'',
          ''mounts'', ''timeout'', ''follow_redirects'', ''limits'', ''max_redirects'',
          ''event_hooks'', ''base_url'', ''transport'', ''trust_env'', ''default_encoding''}))) () [''app'' \<mapsto> PObj ''wsgi_app''])
       ''app'' = None
   \<and> oauth1_kwargs (OAuth1Client_init (\<lambda>kw.
        (kw |` {''headers'', ''cookies'', ''verify'', ''cert'', ''http1'', ''http2'', ''proxy'',
          ''mounts'', ''timeout'', ''follow_redirects'', ''limits'', ''max_redirects'',
          ''event_hooks'', ''base_url'', ''transport'', ''trust_env'', ''default_encoding''},
         kw |` (- {''headers'', ''cookies'', ''verify'', ''cert'', ''http1'', ''http2'', ''proxy'',
          ''mounts'', ''timeout'', ''follow_redirects'', ''limits'', ''max_redirects'',
          ''event_hooks'', ''base_url'', ''transport'', ''trust_env'', ''default_encoding''}))) () [''app'' \<mapsto> PObj ''wsgi_app''])
       ''app'' = Some (PObj ''wsgi_app'')"
  by (simp add: OAuth1Client_init_def pop_def restrict_map_def)

subsection \<open>The request signer\<close>

text \<open>
  C6, as the code has it. \<^verbatim>\<open>auth_flow\<close> never yields more than one request. When the
  signer's \<^verbatim>\<open>prepare\<close> returns, it yields the signed request and nothing else, whatever
  responses are sent to it, and the first response sent, whatever it is, makes the
  generator return: it signs once and looks at no response. When \<^verbatim>\<open>prepare\<close> raises,
  the exception leaves the generator and no request is yielded. Its only parameters
  are the signer and the request.
\<close>

theorem auth_flow_yields_at_most_once:
  "(\<forall>x. prepare (request_method req) (request_url req) (request_headers req)
           (request_content req) = Inl x \<longrightarrow>
        auth_flow prepare req = Raise x
        \<and> (\<forall>resps. yielded (auth_flow prepare req) resps = []))
   \<and> (\<forall>u hs b. prepare (request_method req) (request_url req) (request_headers req)
           (request_content req) = Inr (u, hs, b) \<longrightarrow>
        (\<forall>resps. yielded (auth_flow prepare req) resps
           = [build_request u (set_header ''Content-Length'' (py_str (len b)) hs) b req])
        \<and> (\<forall>resp. send (auth_flow prepare req) resp = Return))
   \<and> (\<forall>resps. length (yielded (auth_flow prepare req) resps) \<le> 1)"
  by (cases "prepare (request_method req) (request_url req) (request_headers req)
        (request_content req)")
     (auto simp: auth_flow_def Let_def yielded_once)

theorem auth_flow_yields_at_most_once_witness:
  "(\<lambda>m u hs b. Inr (u, hs, Bytes (b @ ''&oauth_signature=sig''))) (request_method \<lparr>request_method = ''POST'', request_url = ''https://ex.com/resource'',
        request_headers = [(''content-length'', ''7''), (''Host'', ''ex.com'')],
        request_content = ''a=1&b=2''\<rparr>) (request_url \<lparr>request_method = ''POST'', request_url = ''https://ex.com/resource'',
        request_headers = [(''content-length'', ''7''), (''Host'', ''ex.com'')],
        request_content = ''a=1&b=2''\<rparr>)
       (request_headers \<lparr>request_method = ''POST'', request_url = ''https://ex.com/resource'',
        request_headers = [(''content-length'', ''7''), (''Host'', ''ex.com'')],
        request_content = ''a=1&b=2''\<rparr>) (request_content \<lparr>request_method = ''POST'', request_url = ''https://ex.com/resource'',
        request_headers = [(''content-length'', ''7''), (''Host'', ''ex.com'')],
        request_content = ''a=1&b=2''\<rparr>)
     = Inr (''https://ex.com/resource'', [(''content-length'', ''7''), (''Host'', ''ex.com'')],
            Bytes ''a=1&b=2&oauth_signature=sig'')
   \<and> yielded (auth_flow (\<lambda>m u hs b. Inr (u, hs, Bytes (b @ ''&oauth_signature=sig''))) \<lparr>request_method = ''POST'', request_url = ''https://ex.com/resource'',
        request_headers = [(''content-length'', ''7''), (''Host'', ''ex.com'')],
        request_content = ''a=1&b=2''\<rparr>)
       [\<lparr>status_code = 401, aread = ''denied''\<rparr>, \<lparr>status_code = 401, aread = ''denied''\<rparr>]
     = [\<lparr>request_method = ''POST'', request_url = ''https://ex.com/resource'',
        request_headers = [(''Content-Length'', ''27''), (''Host'', ''ex.com'')],
        request_content = ''a=1&b=2&oauth_signature=sig''\<rparr>]
   \<and> send (auth_flow (\<lambda>m u hs b. Inr (u, hs, Bytes (b @ ''&oauth_signature=sig''))) \<lparr>request_method = ''POST'', request_url = ''https://ex.com/resource'',
        request_headers = [(''content-length'', ''7''), (''Host'', ''ex.com'')],
        request_content = ''a=1&b=2''\<rparr>)
       \<lparr>status_code = 401, aread = ''denied''\<rparr> = Return"
  (is "?h \<and> ?c")
proof -
  have h: ?h by simp
  have s: "set_header ''Content-Length'' (py_str (len (Bytes ''a=1&b=2&oauth_signature=sig'')))
             [(''content-length'', ''7''), (''Host'', ''ex.com'')]
           = [(''Content-Length'', ''27''), (''Host'', ''ex.com'')]"
    by (simp add: lower_def lower_char_def py_str.simps digit_def)
  from h s auth_flow_yields_at_most_once [of "(\<lambda>m u hs b. Inr (u, hs, Bytes (b @ ''&oauth_signature=sig'')))"
         "\<lparr>request_method = ''POST'', request_url = ''https://ex.com/resource'',
        request_headers = [(''content-length'', ''7''), (''Host'', ''ex.com'')],
        request_content = ''a=1&b=2''\<rparr>"]
  show ?thesis by (simp add: build_request_def)
qed

text \<open>
  C6, as stated, fails: with a signer that raises (no client secret for HMAC-SHA1,
  say) the generator raises at once and yields no request.
\<close>

theorem auth_flow_exactly_one_counterexample:
  "auth_flow (\<lambda>m u hs b. Inl ''MissingCredential'') \<lparr>request_method = ''POST'', request_url = ''https://ex.com/resource'',
        request_headers = [(''content-length'', ''7''), (''Host'', ''ex.com'')],
        request_content = ''a=1&b=2''\<rparr> = Raise ''MissingCredential''
   \<and> yielded (auth_flow (\<lambda>m u hs b. Inl ''MissingCredential'') \<lparr>request_method = ''POST'', request_url = ''https://ex.com/resource'',
        request_headers = [(''content-length'', ''7''), (''Host'', ''ex.com'')],
        request_content = ''a=1&b=2''\<rparr>)
       [\<lparr>status_code = 401, aread = ''denied''\<rparr>] = []"
  by (simp add: auth_flow_def)


end
